theory Spec2Isabelle
  imports Main "HOL-Library.Word"
begin

section \<open>JavaScript strings\<close>

text \<open>
  A JavaScript string is a sequence of UTF-16 code units. String literals of the
  sources are ASCII and are written through \<open>js\<close>; \<open>===\<close> and \<open>!==\<close> on
  strings compare the code-unit sequences, which is HOL equality on lists.
\<close>

type_synonym js_string = "16 word list"

definition js :: "string \<Rightarrow> js_string" where
  "js s = map (\<lambda>c. of_char c) s"

text \<open>
  The character class \<open>\s\<close> of a JavaScript regular expression (without the
  unicode flag): the WhiteSpace and LineTerminator code points. \<open>String.prototype.trim\<close>
  strips the same set.
\<close>

definition is_whitespace :: "16 word \<Rightarrow> bool" where
  "is_whitespace c \<longleftrightarrow>
     c = 0x0009 \<or> c = 0x000A \<or> c = 0x000B \<or> c = 0x000C \<or> c = 0x000D \<or>
     c = 0x0020 \<or> c = 0x00A0 \<or> c = 0x1680 \<or>
     (0x2000 \<le> c \<and> c \<le> 0x200A) \<or>
     c = 0x2028 \<or> c = 0x2029 \<or> c = 0x202F \<or> c = 0x205F \<or>
     c = 0x3000 \<or> c = 0xFEFF"

definition trim :: "js_string \<Rightarrow> js_string" where
  "trim s = rev (dropWhile is_whitespace (rev (dropWhile is_whitespace s)))"

section \<open>The router (the module imported as @/router)\<close>

subsection \<open>Route table\<close>

datatype view =
    HomeView | UserLoginView | CreateUserView | UserProfileView | UserProgressView
  | UserQuizzesView | QuizBrowser | QuizRunnerMenu | FeedbackPage | QuizCreator | NotFound

text \<open>
  \<open>meta\<close> is an object; a record that declares no \<open>authRequired\<close> (and the start
  location, whose meta is empty) reads as \<open>undefined\<close>, which is \<open>None\<close> here.
\<close>

record route_meta =
  authRequired :: "bool option"

record route_record =
  path :: js_string
  route_name :: js_string
  component :: view
  meta :: route_meta

definition home_route :: route_record where
  "home_route = \<lparr>path = js ''/'', route_name = js ''home'', component = HomeView,
     meta = \<lparr>authRequired = Some False\<rparr>\<rparr>"

definition login_route :: route_record where
  "login_route = \<lparr>path = js ''/login'', route_name = js ''login'', component = UserLoginView,
     meta = \<lparr>authRequired = Some False\<rparr>\<rparr>"

definition register_route :: route_record where
  "register_route = \<lparr>path = js ''/register-user'', route_name = js ''register'',
     component = CreateUserView, meta = \<lparr>authRequired = Some False\<rparr>\<rparr>"

definition user_profile_route :: route_record where
  "user_profile_route = \<lparr>path = js ''/user-profile'', route_name = js ''user-profile'',
     component = UserProfileView, meta = \<lparr>authRequired = Some True\<rparr>\<rparr>"

definition user_progress_route :: route_record where
  "user_progress_route = \<lparr>path = js ''/user-progress'', route_name = js ''user-progress'',
     component = UserProgressView, meta = \<lparr>authRequired = Some True\<rparr>\<rparr>"

definition user_quizzes_route :: route_record where
  "user_quizzes_route = \<lparr>path = js ''/user-quizzes'', route_name = js ''user-quizzes'',
     component = UserQuizzesView, meta = \<lparr>authRequired = Some True\<rparr>\<rparr>"

definition quiz_browser_route :: route_record where
  "quiz_browser_route = \<lparr>path = js ''/quiz-browser'', route_name = js ''quiz-browser'',
     component = QuizBrowser, meta = \<lparr>authRequired = Some False\<rparr>\<rparr>"

definition quiz_runner_route :: route_record where
  "quiz_runner_route = \<lparr>path = js ''/quiz-runner/:quizId'', route_name = js ''quiz-runner'',
     component = QuizRunnerMenu, meta = \<lparr>authRequired = Some False\<rparr>\<rparr>"

definition contact_route :: route_record where
  "contact_route = \<lparr>path = js ''/contact'', route_name = js ''contact'',
     component = FeedbackPage, meta = \<lparr>authRequired = Some False\<rparr>\<rparr>"

definition quiz_creator_route :: route_record where
  "quiz_creator_route = \<lparr>path = js ''/quiz-creator'', route_name = js ''quiz-creator'',
     component = QuizCreator, meta = \<lparr>authRequired = Some False\<rparr>\<rparr>"

definition not_found_route :: route_record where
  "not_found_route = \<lparr>path = js ''/:pathName(.*)'', route_name = js ''not-found'',
     component = NotFound, meta = \<lparr>authRequired = Some False\<rparr>\<rparr>"

definition routes :: "route_record list" where
  "routes = [home_route, login_route, register_route, user_profile_route,
     user_progress_route, user_quizzes_route, quiz_browser_route, quiz_runner_route,
     contact_route, quiz_creator_route, not_found_route]"

subsection \<open>Resolved locations\<close>

text \<open>
  What the guard reads of \<open>to\<close> and \<open>from\<close>: the full path (path, query and hash as
  requested), the name of the matched record (\<open>undefined\<close> for the start location)
  and the record's meta.
\<close>

record route_location =
  fullPath :: js_string
  loc_name :: "js_string option"
  loc_meta :: route_meta

definition location_of :: "route_record \<Rightarrow> js_string \<Rightarrow> route_location" where
  "location_of r p = \<lparr>fullPath = p, loc_name = Some (route_name r), loc_meta = meta r\<rparr>"

text \<open>
  Modelled from the spec: the matcher of the routing library is not among the sources.
  The spec has the route table consumed as an ordered list of descriptors, matched
  first-to-last, wildcard last. The test whether a path pattern matches a path is the
  parameter \<open>matches\<close>.
\<close>

definition resolve :: "(js_string \<Rightarrow> js_string \<Rightarrow> bool) \<Rightarrow> js_string \<Rightarrow> route_record option" where
  "resolve matches p = find (\<lambda>r. matches (path r) p) routes"

text \<open>The record of the table that a named location such as \<open>{name: 'login'}\<close> denotes.\<close>

definition resolve_name :: "js_string \<Rightarrow> route_record option" where
  "resolve_name n = find (\<lambda>r. route_name r = n) routes"

subsection \<open>Session store\<close>

text \<open>
  Modelled from the spec: the user store is not among the sources. The spec has it
  expose a single boolean, whether the current user is authenticated, which the guard
  reads and never writes.
\<close>

record user_store =
  store_isAuthenticated :: bool

definition isAuthenticated :: "user_store \<Rightarrow> bool" where
  "isAuthenticated store = store_isAuthenticated store"

subsection \<open>Navigation guard\<close>

text \<open>
  The guard returns \<open>true\<close> (\<open>Proceed\<close>) or the object
  \<open>{name: 'login', query: {redirect: to.fullPath}}\<close>.
\<close>

datatype decision =
    Proceed
  | Redirect (target_name: js_string) (query_redirect: js_string)

text \<open>\<open>x?.toString()\<close> inside a string concatenation: \<open>undefined\<close> prints as such.\<close>

definition name_toString :: "js_string option \<Rightarrow> js_string" where
  "name_toString n = (case n of None \<Rightarrow> js ''undefined'' | Some s \<Rightarrow> s)"

text \<open>Truthiness of \<open>to.meta.authRequired\<close>.\<close>

definition truthy :: "bool option \<Rightarrow> bool" where
  "truthy v = (case v of None \<Rightarrow> False | Some b \<Rightarrow> b)"

type_synonym console = "js_string list"

definition console_log :: "js_string \<Rightarrow> console \<Rightarrow> console" where
  "console_log line out = out @ [line]"

definition beforeEach ::
  "user_store \<Rightarrow> console \<Rightarrow> route_location \<Rightarrow> route_location \<Rightarrow> decision \<times> console" where
  "beforeEach store out to frm =
     (let out' = console_log (js ''Trying to go from '' @ name_toString (loc_name frm)
                   @ js '' to: '' @ name_toString (loc_name to)) out
      in if truthy (authRequired (loc_meta to)) then
           (if isAuthenticated store then (Proceed, out')
            else (Redirect (js ''login'') (fullPath to), out'))
         else (Proceed, out'))"

section \<open>The registration form (src/components/user/CreateUser.vue)\<close>

subsection \<open>Form state\<close>

text \<open>The refs of the component; \<open>store\<close> and \<open>route\<close> are passed to \<open>register\<close>.\<close>

record form =
  username :: js_string
  password :: js_string
  confirmPassword :: js_string
  email :: js_string
  name :: js_string
  surname :: js_string
  errorMessage :: js_string

text \<open>The object literal that \<open>register\<close> hands to the store.\<close>

record CreateUserRequestDTO =
  dto_username :: js_string
  dto_password :: js_string
  dto_email :: js_string
  dto_name :: js_string
  dto_surname :: js_string

subsection \<open>register\<close>

text \<open>
  \<open>route.query.redirect\<close> is absent, \<open>null\<close>, a string or an array of such; the
  component tests its truthiness and passes it to \<open>router.push\<close> unchanged.
\<close>

datatype query_value =
    QUndefined | QNull | QString js_string | QArray "js_string option list"

definition query_truthy :: "query_value \<Rightarrow> bool" where
  "query_truthy v = (case v of QUndefined \<Rightarrow> False | QNull \<Rightarrow> False
                     | QString s \<Rightarrow> s \<noteq> [] | QArray _ \<Rightarrow> True)"

text \<open>
  The collaborators of \<open>register\<close> are not among the sources and are parameters:
  \<open>store.registerUser\<close> and \<open>router.push\<close> either succeed (\<open>None\<close>) or throw, and
  \<open>ErrorHandlingService.handleRequestError\<close> returns the message to display or throws
  itself. The calls made are recorded in order.
\<close>

datatype 'e call =
    RegisterUser CreateUserRequestDTO
  | RouterPush query_value
  | HandleRequestError 'e js_string

datatype 'e completion = Returned | Threw 'e

record 'e services =
  registerUser :: "CreateUserRequestDTO \<Rightarrow> 'e option"
  push :: "query_value \<Rightarrow> 'e option"
  handleRequestError :: "'e \<Rightarrow> js_string \<Rightarrow> 'e + js_string"

text \<open>The \<open>catch\<close> block.\<close>

definition register_catch ::
  "'e services \<Rightarrow> form \<Rightarrow> 'e call list \<Rightarrow> 'e \<Rightarrow> form \<times> 'e call list \<times> 'e completion" where
  "register_catch sv s calls err =
     (let calls' = calls @ [HandleRequestError err (js ''Registration failed'')]
      in (case handleRequestError sv err (js ''Registration failed'') of
            Inl e \<Rightarrow> (s, calls', Threw e)
          | Inr msg \<Rightarrow> (s\<lparr>errorMessage := msg\<rparr>, calls', Returned)))"

text \<open>
  The result is the form state after the call, the calls made to the collaborators,
  and whether the promise is fulfilled or rejected.
\<close>

definition register ::
  "'e services \<Rightarrow> query_value \<Rightarrow> form \<Rightarrow> form \<times> 'e call list \<times> 'e completion" where
  "register sv redirect s =
     (if password s \<noteq> confirmPassword s then
        (s\<lparr>errorMessage := js ''Password conformation not correct.''\<rparr>, [], Returned)
      else
        (let user = \<lparr>dto_username = trim (username s), dto_password = trim (password s),
                     dto_email = trim (email s), dto_name = trim (name s),
                     dto_surname = trim (surname s)\<rparr>
         in (case registerUser sv user of
               Some err \<Rightarrow> register_catch sv s [RegisterUser user] err
             | None \<Rightarrow>
                 (let target = (if query_truthy redirect then redirect else QString (js ''/''))
                  in (case push sv target of
                        Some err \<Rightarrow>
                          register_catch sv s [RegisterUser user, RouterPush target] err
                      | None \<Rightarrow> (s, [RegisterUser user, RouterPush target], Returned))))))"

subsection \<open>isBlank, fieldsFilled and the Register button\<close>

text \<open>\<open>!str || /^\s*$/.test(str)\<close>\<close>

definition isBlank :: "js_string \<Rightarrow> bool" where
  "isBlank str \<longleftrightarrow> str = [] \<or> list_all is_whitespace str"

definition fieldsFilled :: "form \<Rightarrow> bool" where
  "fieldsFilled s \<longleftrightarrow>
     \<not> isBlank (username s) \<and> \<not> isBlank (email s) \<and> \<not> isBlank (name s) \<and>
     \<not> isBlank (surname s) \<and> \<not> isBlank (confirmPassword s)"

text \<open>The binding \<open>:disabled="!fieldsFilled"\<close> of the submit input.\<close>

definition register_button_disabled :: "form \<Rightarrow> bool" where
  "register_button_disabled s \<longleftrightarrow> \<not> fieldsFilled s"

subsection \<open>preventSpace\<close>

text \<open>What the handler reads and writes of a keydown event.\<close>

record keyboard_event =
  key :: js_string
  code :: js_string
  defaultPrevented :: bool

definition preventDefault :: "keyboard_event \<Rightarrow> keyboard_event" where
  "preventDefault event = event\<lparr>defaultPrevented := True\<rparr>"

definition preventSpace :: "keyboard_event \<Rightarrow> keyboard_event" where
  "preventSpace event =
     (if key event = js '' '' \<or> code event = js ''Space'' then preventDefault event
      else event)"

section \<open>Sample inputs\<close>

text \<open>The location a first navigation comes from: no name, empty meta.\<close>

definition start_location :: route_location where
  "start_location = \<lparr>fullPath = js ''/'', loc_name = None, loc_meta = \<lparr>authRequired = None\<rparr>\<rparr>"

definition blank_password_form :: form where
  "blank_password_form = \<lparr>username = js ''alice'', password = [],
     confirmPassword = js ''secret'', email = js ''alice@example.org'',
     name = js ''Alice'', surname = js ''Smith'', errorMessage = []\<rparr>"

definition mismatch_form :: form where
  "mismatch_form = \<lparr>username = js ''alice'', password = js ''secret'',
     confirmPassword = js ''secrex'', email = js ''alice@example.org'',
     name = js ''Alice'', surname = js ''Smith'', errorMessage = []\<rparr>"

text \<open>Collaborators that accept every registration and every navigation.\<close>

definition accepting_services :: "unit services" where
  "accepting_services = \<lparr>registerUser = (\<lambda>_. None), push = (\<lambda>_. None),
     handleRequestError = (\<lambda>_ fallback. Inr fallback)\<rparr>"

section \<open>Properties of the navigation guard\<close>

lemma beforeEach_decision:
  "fst (beforeEach store out to frm) =
     (if truthy (authRequired (loc_meta to)) \<and> \<not> isAuthenticated store
      then Redirect (js ''login'') (fullPath to) else Proceed)"
  by (simp add: beforeEach_def Let_def)

lemma beforeEach_console:
  "snd (beforeEach store out to frm) =
     out @ [js ''Trying to go from '' @ name_toString (loc_name frm)
            @ js '' to: '' @ name_toString (loc_name to)]"
  by (simp add: beforeEach_def Let_def console_log_def)

text \<open>
  C1. When the target route has \<open>authRequired = true\<close> and the session is not
  authenticated, the guard returns the redirect directive with target route name
  \<open>login\<close> and \<open>query.redirect\<close> equal to the full path of the target exactly as it
  was requested, whatever the source location and the console.
\<close>

theorem guard_redirects_unauthenticated:
  assumes "authRequired (loc_meta to) = Some True" and "\<not> isAuthenticated store"
  shows "fst (beforeEach store out to frm) = Redirect (js ''login'') (fullPath to)"
  using assms by (simp add: beforeEach_decision truthy_def)

theorem guard_redirects_unauthenticated_witness:
  "authRequired (loc_meta (location_of user_profile_route (js ''/user-profile''))) = Some True
   \<and> \<not> isAuthenticated \<lparr>store_isAuthenticated = False\<rparr>
   \<and> fst (beforeEach \<lparr>store_isAuthenticated = False\<rparr> []
             (location_of user_profile_route (js ''/user-profile'')) start_location)
       = Redirect (js ''login'') (js ''/user-profile'')"
proof -
  let ?to = "location_of user_profile_route (js ''/user-profile'')"
  let ?st = "\<lparr>store_isAuthenticated = False\<rparr>"
  have a: "authRequired (loc_meta ?to) = Some True"
    by (simp add: location_of_def user_profile_route_def)
  have b: "\<not> isAuthenticated ?st"
    by (simp add: isAuthenticated_def)
  have c: "fullPath ?to = js ''/user-profile''"
    by (simp add: location_of_def)
  show ?thesis
    using a b guard_redirects_unauthenticated [OF a b, of "[]" start_location]
    by (simp only: c simp_thms)
qed

text \<open>
  C2. When the target route has \<open>authRequired = false\<close>, the guard returns Proceed;
  the store is arbitrary, so this holds for both values of the session flag.
\<close>

theorem guard_proceeds_public:
  assumes "authRequired (loc_meta to) = Some False"
  shows "fst (beforeEach store out to frm) = Proceed"
  using assms by (simp add: beforeEach_decision truthy_def)

theorem guard_proceeds_public_witness:
  "authRequired (loc_meta (location_of quiz_browser_route (js ''/quiz-browser''))) = Some False
   \<and> fst (beforeEach \<lparr>store_isAuthenticated = False\<rparr> []
             (location_of quiz_browser_route (js ''/quiz-browser'')) start_location) = Proceed
   \<and> fst (beforeEach \<lparr>store_isAuthenticated = True\<rparr> []
             (location_of quiz_browser_route (js ''/quiz-browser'')) start_location) = Proceed"
proof -
  let ?to = "location_of quiz_browser_route (js ''/quiz-browser'')"
  have a: "authRequired (loc_meta ?to) = Some False"
    by (simp add: location_of_def quiz_browser_route_def)
  show ?thesis
    using a
      guard_proceeds_public [OF a, of "\<lparr>store_isAuthenticated = False\<rparr>" "[]" start_location]
      guard_proceeds_public [OF a, of "\<lparr>store_isAuthenticated = True\<rparr>" "[]" start_location]
    by (simp only: simp_thms)
qed

text \<open>
  C3. When the target route has \<open>authRequired = true\<close> and the session is
  authenticated, the guard returns Proceed.
\<close>

theorem guard_proceeds_authenticated:
  assumes "authRequired (loc_meta to) = Some True" and "isAuthenticated store"
  shows "fst (beforeEach store out to frm) = Proceed"
  using assms by (simp add: beforeEach_decision)

theorem guard_proceeds_authenticated_witness:
  "authRequired (loc_meta (location_of user_quizzes_route (js ''/user-quizzes''))) = Some True
   \<and> isAuthenticated \<lparr>store_isAuthenticated = True\<rparr>
   \<and> fst (beforeEach \<lparr>store_isAuthenticated = True\<rparr> []
             (location_of user_quizzes_route (js ''/user-quizzes'')) start_location) = Proceed"
proof -
  let ?to = "location_of user_quizzes_route (js ''/user-quizzes'')"
  have a: "authRequired (loc_meta ?to) = Some True"
    by (simp add: location_of_def user_quizzes_route_def)
  have b: "isAuthenticated \<lparr>store_isAuthenticated = True\<rparr>"
    by (simp add: isAuthenticated_def)
  show ?thesis
    using a b guard_proceeds_authenticated [OF a b, of "[]" start_location]
    by (simp only: simp_thms)
qed

text \<open>
  C4. The guard never returns Proceed for a route that requires authentication while
  the session is not authenticated: whenever it returns Proceed, the route does not
  require authentication or the session is authenticated; and in every state where the
  route requires authentication and the session is not authenticated, the outcome is
  the login redirect that carries the requested full path.
\<close>

theorem guard_never_admits_unauthenticated:
  "(fst (beforeEach store out to frm) = Proceed \<longrightarrow>
      \<not> truthy (authRequired (loc_meta to)) \<or> isAuthenticated store)
   \<and> (truthy (authRequired (loc_meta to)) \<and> \<not> isAuthenticated store \<longrightarrow>
      fst (beforeEach store out to frm) = Redirect (js ''login'') (fullPath to))"
  by (simp add: beforeEach_decision)

theorem guard_never_admits_unauthenticated_witness:
  "truthy (authRequired (loc_meta (location_of user_progress_route (js ''/user-progress?tab=2''))))
   \<and> \<not> isAuthenticated \<lparr>store_isAuthenticated = False\<rparr>
   \<and> fst (beforeEach \<lparr>store_isAuthenticated = False\<rparr> []
            (location_of user_progress_route (js ''/user-progress?tab=2'')) start_location)
       = Redirect (js ''login'') (js ''/user-progress?tab=2'')
   \<and> fst (beforeEach \<lparr>store_isAuthenticated = True\<rparr> []
            (location_of user_progress_route (js ''/user-progress?tab=2'')) start_location)
       = Proceed
   \<and> isAuthenticated \<lparr>store_isAuthenticated = True\<rparr>"
proof -
  let ?to = "location_of user_progress_route (js ''/user-progress?tab=2'')"
  have a: "truthy (authRequired (loc_meta ?to))"
    by (simp add: location_of_def user_progress_route_def truthy_def)
  have b: "\<not> isAuthenticated \<lparr>store_isAuthenticated = False\<rparr>"
    by (simp add: isAuthenticated_def)
  have c: "fullPath ?to = js ''/user-progress?tab=2''"
    by (simp add: location_of_def)
  have d: "fst (beforeEach \<lparr>store_isAuthenticated = True\<rparr> [] ?to start_location) = Proceed"
    by (simp add: beforeEach_decision isAuthenticated_def)
  show ?thesis
    using a b d
      guard_never_admits_unauthenticated
        [of "\<lparr>store_isAuthenticated = False\<rparr>" "[]" ?to start_location]
      guard_never_admits_unauthenticated
        [of "\<lparr>store_isAuthenticated = True\<rparr>" "[]" ?to start_location]
    by (simp add: c)
qed

text \<open>
  C9. The decision is a function of the target route and the session flag alone:
  two evaluations on the same target and store give the same decision, whatever the
  source locations and the consoles of the two evaluations.
\<close>

theorem guard_deterministic:
  "fst (beforeEach store out1 to frm1) = fst (beforeEach store out2 to frm2)"
  by (simp add: beforeEach_decision)

text \<open>
  C10. The guard cannot produce a redirect loop: every redirect it emits targets the
  name \<open>login\<close>; the route table has a record of that name, whose \<open>authRequired\<close> is
  false; and the guard returns Proceed on every location of that record, for every
  store, hence for both values of the session flag.
\<close>

lemma resolve_name_login: "resolve_name (js ''login'') = Some login_route"
  by (simp add: resolve_name_def routes_def home_route_def login_route_def js_def)

theorem guard_no_redirect_loop:
  assumes "fst (beforeEach store out to frm) = Redirect n q"
  shows "n = js ''login'' \<and>
         (\<exists>r. resolve_name n = Some r \<and> authRequired (meta r) = Some False \<and>
              (\<forall>store' out' p frm'.
                 fst (beforeEach store' out' (location_of r p) frm') = Proceed))"
proof -
  from assms have n: "n = js ''login''"
    by (simp add: beforeEach_decision split: if_splits)
  have "authRequired (meta login_route) = Some False"
    by (simp add: login_route_def)
  moreover have "fst (beforeEach store' out' (location_of login_route p) frm') = Proceed"
    for store' out' p frm'
    by (simp add: beforeEach_decision location_of_def login_route_def truthy_def)
  ultimately show ?thesis
    using n resolve_name_login by simp
qed

theorem guard_no_redirect_loop_witness:
  "fst (beforeEach \<lparr>store_isAuthenticated = False\<rparr> []
          (location_of user_profile_route (js ''/user-profile'')) start_location)
     = Redirect (js ''login'') (js ''/user-profile'')
   \<and> resolve_name (js ''login'') = Some login_route
   \<and> fst (beforeEach \<lparr>store_isAuthenticated = False\<rparr> []
            (location_of login_route (js ''/login?redirect=/user-profile''))
            start_location) = Proceed
   \<and> fst (beforeEach \<lparr>store_isAuthenticated = True\<rparr> []
            (location_of login_route (js ''/login?redirect=/user-profile''))
            start_location) = Proceed"
proof -
  have a: "fst (beforeEach \<lparr>store_isAuthenticated = False\<rparr> []
          (location_of user_profile_route (js ''/user-profile'')) start_location)
     = Redirect (js ''login'') (js ''/user-profile'')"
    by (simp add: beforeEach_decision location_of_def user_profile_route_def truthy_def
        isAuthenticated_def)
  from guard_no_redirect_loop [OF a] obtain r where
    r: "resolve_name (js ''login'') = Some r"
    and p: "\<And>store' out' p frm'. fst (beforeEach store' out' (location_of r p) frm') = Proceed"
    by blast
  have l: "resolve_name (js ''login'') = Some login_route"
    by (simp add: resolve_name_def routes_def home_route_def login_route_def js_def)
  with r have "r = login_route" by simp
  with a l p show ?thesis by simp
qed

section \<open>Resolution of unmatched paths\<close>

lemma find_last_iff:
  "y \<notin> set xs \<Longrightarrow> P y \<Longrightarrow> find P (xs @ [y]) = Some y \<longleftrightarrow> (\<forall>x \<in> set xs. \<not> P x)"
  by (induction xs) auto

lemma routes_split: "routes = butlast routes @ [not_found_route]"
  by (simp add: routes_def)

lemma butlast_routes_not_wildcard:
  "\<forall>r \<in> set (butlast routes). path r \<noteq> js ''/:pathName(.*)''"
  by (simp add: routes_def home_route_def login_route_def register_route_def
      user_profile_route_def user_progress_route_def user_quizzes_route_def
      quiz_browser_route_def quiz_runner_route_def contact_route_def
      quiz_creator_route_def js_def)

lemma path_not_found_route: "path not_found_route = js ''/:pathName(.*)''"
  by (simp add: not_found_route_def)

text \<open>
  C8. For a path that the catch-all pattern matches (it matches any path), resolution
  yields the not-found record exactly when no record with another pattern matches
  the path; that record is the last of the route table, its \<open>authRequired\<close> is false,
  and the guard returns Proceed on it. The pattern matcher is a parameter.
\<close>

theorem unmatched_path_resolves_not_found:
  assumes "matches (js ''/:pathName(.*)'') p"
  shows "(resolve matches p = Some not_found_route \<longleftrightarrow>
            (\<forall>r \<in> set routes. path r \<noteq> js ''/:pathName(.*)'' \<longrightarrow> \<not> matches (path r) p))
         \<and> last routes = not_found_route
         \<and> authRequired (meta not_found_route) = Some False
         \<and> (\<forall>store out frm.
              fst (beforeEach store out (location_of not_found_route p) frm) = Proceed)"
proof -
  have notin: "not_found_route \<notin> set (butlast routes)"
    using butlast_routes_not_wildcard path_not_found_route by blast
  have "find (\<lambda>r. matches (path r) p) (butlast routes @ [not_found_route]) = Some not_found_route
        \<longleftrightarrow> (\<forall>r \<in> set (butlast routes). \<not> matches (path r) p)"
    using notin assms by (intro find_last_iff) (simp_all add: path_not_found_route)
  then have "resolve matches p = Some not_found_route
        \<longleftrightarrow> (\<forall>r \<in> set (butlast routes). \<not> matches (path r) p)"
    unfolding resolve_def using routes_split by simp
  also have "\<dots> \<longleftrightarrow>
      (\<forall>r \<in> set routes. path r \<noteq> js ''/:pathName(.*)'' \<longrightarrow> \<not> matches (path r) p)"
  proof -
    have "set routes = insert not_found_route (set (butlast routes))"
      using routes_split by (metis Un_insert_right append_Nil2 list.simps(15) set_append)
    then show ?thesis
      using butlast_routes_not_wildcard path_not_found_route by auto
  qed
  finally have res: "resolve matches p = Some not_found_route \<longleftrightarrow>
      (\<forall>r \<in> set routes. path r \<noteq> js ''/:pathName(.*)'' \<longrightarrow> \<not> matches (path r) p)" .
  have lst: "last routes = not_found_route"
    by (simp add: routes_def)
  have au: "authRequired (meta not_found_route) = Some False"
    by (simp add: not_found_route_def)
  have "fst (beforeEach store out (location_of not_found_route p) frm) = Proceed"
    for store out frm
    by (simp add: beforeEach_decision location_of_def au truthy_def)
  with res lst au show ?thesis by simp
qed

theorem unmatched_path_resolves_not_found_witness:
  "(\<lambda>pat q. pat = q \<or> pat = js ''/:pathName(.*)'') (js ''/:pathName(.*)'') (js ''/xyz123'')
   \<and> resolve (\<lambda>pat q. pat = q \<or> pat = js ''/:pathName(.*)'') (js ''/xyz123'')
       = Some not_found_route
   \<and> resolve (\<lambda>pat q. pat = q \<or> pat = js ''/:pathName(.*)'') (js ''/contact'')
       \<noteq> Some not_found_route
   \<and> fst (beforeEach \<lparr>store_isAuthenticated = False\<rparr> []
            (location_of not_found_route (js ''/xyz123'')) start_location) = Proceed"
proof -
  let ?m = "\<lambda>pat q. pat = q \<or> pat = js ''/:pathName(.*)''"
  have a: "\<forall>r \<in> set routes. path r \<noteq> js ''/:pathName(.*)'' \<longrightarrow> \<not> ?m (path r) (js ''/xyz123'')"
    by (simp add: routes_def home_route_def login_route_def register_route_def
      user_profile_route_def user_progress_route_def user_quizzes_route_def
      quiz_browser_route_def quiz_runner_route_def contact_route_def
      quiz_creator_route_def not_found_route_def js_def)
  have b: "?m (js ''/:pathName(.*)'') q" for q
    by simp
  have c: "contact_route \<in> set routes \<and> path contact_route \<noteq> js ''/:pathName(.*)''
           \<and> ?m (path contact_route) (js ''/contact'')"
    by (simp add: routes_def contact_route_def js_def)
  have d: "resolve ?m (js ''/contact'') \<noteq> Some not_found_route"
    using unmatched_path_resolves_not_found [of ?m "js ''/contact''", OF b] c by blast
  show ?thesis
    using a d unmatched_path_resolves_not_found [of ?m "js ''/xyz123''", OF b]
    by blast
qed

section \<open>Properties of the registration form\<close>

text \<open>
  C5. The Register button is meant to be enabled exactly when all six fields are
  non-blank. \<open>fieldsFilled\<close> does not read \<open>password\<close>: on the form below the password
  is blank, yet \<open>fieldsFilled\<close> holds and the button is enabled.
\<close>

theorem fieldsFilled_ignores_password:
  "isBlank (password blank_password_form)
   \<and> fieldsFilled blank_password_form
   \<and> \<not> register_button_disabled blank_password_form"
  by (simp add: blank_password_form_def register_button_disabled_def fieldsFilled_def
      isBlank_def js_def is_whitespace_def)

text \<open>
  C6, as stated (every keydown whose key is a whitespace character is cancelled),
  fails: a keydown whose key is the ideographic space U+3000, a whitespace character
  for \<open>isBlank\<close>, and whose code is empty is not cancelled.
\<close>

theorem preventSpace_ideographic_space_counterexample:
  "is_whitespace 0x3000
   \<and> \<not> defaultPrevented
         (preventSpace \<lparr>key = [0x3000], code = [], defaultPrevented = False\<rparr>)"
  by (simp add: is_whitespace_def preventSpace_def js_def)

text \<open>
  C6, amended. \<open>preventSpace\<close> cancels every keydown whose key is the space character
  U+0020 or whose code is \<open>Space\<close>, and leaves every other event as it is.
\<close>

theorem preventSpace_blocks_space_key:
  "(key event = js '' '' \<or> code event = js ''Space'' \<longrightarrow>
      defaultPrevented (preventSpace event))
   \<and> (key event \<noteq> js '' '' \<and> code event \<noteq> js ''Space'' \<longrightarrow>
      preventSpace event = event)"
  by (simp add: preventSpace_def preventDefault_def)

theorem preventSpace_blocks_space_key_witness:
  "key \<lparr>key = js '' '', code = js ''Space'', defaultPrevented = False\<rparr> = js '' ''
   \<and> defaultPrevented
        (preventSpace \<lparr>key = js '' '', code = js ''Space'', defaultPrevented = False\<rparr>)
   \<and> key \<lparr>key = js ''a'', code = js ''KeyA'', defaultPrevented = False\<rparr> \<noteq> js '' ''
   \<and> code \<lparr>key = js ''a'', code = js ''KeyA'', defaultPrevented = False\<rparr> \<noteq> js ''Space''
   \<and> preventSpace \<lparr>key = js ''a'', code = js ''KeyA'', defaultPrevented = False\<rparr>
       = \<lparr>key = js ''a'', code = js ''KeyA'', defaultPrevented = False\<rparr>"
proof -
  have a: "key \<lparr>key = js '' '', code = js ''Space'', defaultPrevented = False\<rparr> = js '' ''"
    by simp
  have b: "key \<lparr>key = js ''a'', code = js ''KeyA'', defaultPrevented = False\<rparr> \<noteq> js '' ''"
    by (simp add: js_def)
  have c: "code \<lparr>key = js ''a'', code = js ''KeyA'', defaultPrevented = False\<rparr> \<noteq> js ''Space''"
    by (simp add: js_def)
  show ?thesis
    using a b c
      preventSpace_blocks_space_key
        [of "\<lparr>key = js '' '', code = js ''Space'', defaultPrevented = False\<rparr>"]
      preventSpace_blocks_space_key
        [of "\<lparr>key = js ''a'', code = js ''KeyA'', defaultPrevented = False\<rparr>"]
    by blast
qed

lemma register_calls_mismatch:
  "password s \<noteq> confirmPassword s \<Longrightarrow> fst (snd (register sv redirect s)) = []"
  by (simp add: register_def)

text \<open>
  C7. When \<open>password\<close> differs from \<open>confirmPassword\<close>, \<open>register\<close> sets the error
  message and returns: no call to \<open>store.registerUser\<close>, to \<open>router.push\<close> or to the
  error service is made, and every other field of the form is as before. A call of
  \<open>store.registerUser\<close> is made only when the two password fields are equal.
\<close>

theorem register_confirms_password:
  "(password s \<noteq> confirmPassword s \<longrightarrow>
      register sv redirect s =
        (s\<lparr>errorMessage := js ''Password conformation not correct.''\<rparr>, [], Returned))
   \<and> ((\<exists>user. RegisterUser user \<in> set (fst (snd (register sv redirect s)))) \<longrightarrow>
      password s = confirmPassword s)"
proof (intro conjI impI)
  assume "password s \<noteq> confirmPassword s"
  then show "register sv redirect s =
        (s\<lparr>errorMessage := js ''Password conformation not correct.''\<rparr>, [], Returned)"
    by (simp add: register_def)
next
  assume "\<exists>user. RegisterUser user \<in> set (fst (snd (register sv redirect s)))"
  then obtain user where u: "RegisterUser user \<in> set (fst (snd (register sv redirect s)))"
    by blast
  show "password s = confirmPassword s"
  proof (rule ccontr)
    assume "password s \<noteq> confirmPassword s"
    then have "fst (snd (register sv redirect s)) = []"
      by (rule register_calls_mismatch)
    with u show False by simp
  qed
qed

theorem register_confirms_password_witness:
  "password mismatch_form \<noteq> confirmPassword mismatch_form
   \<and> register accepting_services QUndefined mismatch_form =
       (mismatch_form\<lparr>errorMessage := js ''Password conformation not correct.''\<rparr>, [], Returned)
   \<and> (\<exists>user. RegisterUser user \<in> set (fst (snd
         (register accepting_services QUndefined
            (mismatch_form\<lparr>confirmPassword := js ''secret''\<rparr>)))))
   \<and> password (mismatch_form\<lparr>confirmPassword := js ''secret''\<rparr>)
       = confirmPassword (mismatch_form\<lparr>confirmPassword := js ''secret''\<rparr>)"
proof -
  have a: "password mismatch_form \<noteq> confirmPassword mismatch_form"
    by (simp add: mismatch_form_def js_def)
  have b: "\<exists>user. RegisterUser user \<in> set (fst (snd
         (register accepting_services QUndefined
            (mismatch_form\<lparr>confirmPassword := js ''secret''\<rparr>))))"
    by (simp add: register_def mismatch_form_def accepting_services_def Let_def)
  show ?thesis
    using a b
      register_confirms_password [of mismatch_form accepting_services QUndefined]
      register_confirms_password
        [of "mismatch_form\<lparr>confirmPassword := js ''secret''\<rparr>" accepting_services QUndefined]
    by blast
qed

end
